theory Spec2Isabelle
  imports Main
begin

section \<open>Values, exceptions and text\<close>

text \<open>
  The program is a Streamlit page (\<^verbatim>\<open>Convert_multiple_json_files.py\<close>) that reads uploaded
  JSON files and offers them as CSV, as a spreadsheet or as one JSON array. This theory
  embeds its conversion functions: \<^verbatim>\<open>clean_multiline_field\<close>, \<^verbatim>\<open>json_to_csv_rows\<close>,
  \<^verbatim>\<open>convert_multiple_json_to_csv\<close>, \<^verbatim>\<open>convert_json_to_excel\<close> and
  \<^verbatim>\<open>convert_json_to_json\<close>.

  A Python \<^verbatim>\<open>str\<close> is a \<open>string\<close>: a list of characters, each a code point in the range
  U+0000 .. U+00FF (the 8-bit characters of HOL). A \<^verbatim>\<open>bytes\<close> value is a list of 8-bit
  characters as well, each one byte. The values \<^verbatim>\<open>json.load\<close> builds are \<open>json\<close>;
  Python floats (JSON numbers with a fraction or an exponent) are left out.
  A \<^verbatim>\<open>dict\<close> is an association list in insertion order, read with \<open>map_of\<close>.
\<close>

datatype json =
    JNull
  | JBool bool
  | JInt int
  | JStr string
  | JArr "json list"
  | JObj "(string \<times> json) list"

datatype exn =
    JSONDecodeError
  | TypeError
  | AttributeError
  | UnicodeDecodeError
  | RecursionError
  | ValueError

abbreviation LF :: char where "LF \<equiv> CHR 0x0A"
abbreviation CR :: char where "CR \<equiv> CHR 0x0D"
abbreviation DQ :: char where "DQ \<equiv> CHR 0x22"

text \<open>Python's truth value of an object (\<^verbatim>\<open>if text\<close>).\<close>

fun truthy :: "json \<Rightarrow> bool" where
  "truthy JNull = False"
| "truthy (JBool b) = b"
| "truthy (JInt n) = (n \<noteq> 0)"
| "truthy (JStr s) = (s \<noteq> [])"
| "truthy (JArr xs) = (xs \<noteq> [])"
| "truthy (JObj kvs) = (kvs \<noteq> [])"

text \<open>
  \<^verbatim>\<open>sep.join(xs)\<close>: every item has to be a \<^verbatim>\<open>str\<close>, otherwise \<^verbatim>\<open>TypeError\<close>
  (\<^verbatim>\<open>sequence item 0: expected str instance, int found\<close>).
\<close>

fun str_items :: "json list \<Rightarrow> exn + string list" where
  "str_items [] = Inr []"
| "str_items (JStr s # xs) =
     (case str_items xs of Inl e \<Rightarrow> Inl e | Inr ss \<Rightarrow> Inr (s # ss))"
| "str_items (x # xs) = Inl TypeError"

fun intercalate :: "string \<Rightarrow> string list \<Rightarrow> string" where
  "intercalate sep [] = []"
| "intercalate sep [s] = s"
| "intercalate sep (s # t # ss) = s @ sep @ intercalate sep (t # ss)"

definition str_join :: "string \<Rightarrow> json list \<Rightarrow> exn + string" where
  "str_join sep xs =
     (case str_items xs of Inl e \<Rightarrow> Inl e | Inr ss \<Rightarrow> Inr (intercalate sep ss))"

text \<open>
  \<^verbatim>\<open>s.replace(old, new)\<close> on a \<^verbatim>\<open>str\<close>: the occurrences of \<^verbatim>\<open>old\<close> are replaced from the
  left, without overlap; an empty \<^verbatim>\<open>old\<close> matches before every character and at the end.
\<close>

function str_replace :: "string \<Rightarrow> string \<Rightarrow> string \<Rightarrow> string" where
  "str_replace old new s =
     (if old = [] then new @ concat (map (\<lambda>c. c # new) s)
      else if s = [] then []
      else if take (length old) s = old then new @ str_replace old new (drop (length old) s)
      else hd s # str_replace old new (tl s))"
  by pat_completeness auto
termination
  by (relation "measure (\<lambda>(old, new, s). length s)") auto

declare str_replace.simps [simp del]

text \<open>
  The attribute lookup \<^verbatim>\<open>text.replace\<close>: only a \<^verbatim>\<open>str\<close> has the method; on \<^verbatim>\<open>int\<close>,
  \<^verbatim>\<open>bool\<close>, \<^verbatim>\<open>dict\<close> it raises \<^verbatim>\<open>AttributeError\<close>.
\<close>

fun method_replace :: "json \<Rightarrow> exn + string" where
  "method_replace (JStr s) = Inr (str_replace [LF] '' | '' s)"
| "method_replace v = Inl AttributeError"

section \<open>The field normalizer and the row mapper\<close>

text \<open>
  \<^verbatim>\<open>
  def clean_multiline_field(text):
      if isinstance(text, list):
          text = ', '.join(text)
      return text.replace("\n", " | ") if text else ""
  \<close>
\<close>

definition clean_multiline_field :: "json \<Rightarrow> exn + string" where
  "clean_multiline_field text =
     (case (case text of
              JArr xs \<Rightarrow> (case str_join '', '' xs of Inl e \<Rightarrow> Inl e | Inr s \<Rightarrow> Inr (JStr s))
            | _ \<Rightarrow> Inr text) of
        Inl e \<Rightarrow> Inl e
      | Inr text' \<Rightarrow> if truthy text' then method_replace text' else Inr [])"

text \<open>
  \<^verbatim>\<open>json_data.get(column, "")\<close>: the method exists on a \<^verbatim>\<open>dict\<close> only; a document that
  is a list, a string, a number, a boolean or \<^verbatim>\<open>None\<close> raises \<^verbatim>\<open>AttributeError\<close>.
\<close>

fun dict_get :: "json \<Rightarrow> string \<Rightarrow> json \<Rightarrow> exn + json" where
  "dict_get (JObj kvs) k dflt = Inr (case map_of kvs k of None \<Rightarrow> dflt | Some v \<Rightarrow> v)"
| "dict_get d k dflt = Inl AttributeError"

text \<open>
  \<^verbatim>\<open>
  def json_to_csv_rows(json_data, columns):
      csv_row = []
      for column in columns:
          value = json_data.get(column, "")
          value = clean_multiline_field(value)
          csv_row.append(value)
      return csv_row
  \<close>
  The loop carries \<^verbatim>\<open>csv_row\<close>.
\<close>

fun json_to_csv_rows_loop :: "json \<Rightarrow> string list \<Rightarrow> string list \<Rightarrow> exn + string list" where
  "json_to_csv_rows_loop json_data [] csv_row = Inr csv_row"
| "json_to_csv_rows_loop json_data (column # columns) csv_row =
     (case dict_get json_data column (JStr []) of
        Inl e \<Rightarrow> Inl e
      | Inr v \<Rightarrow>
          (case clean_multiline_field v of
             Inl e \<Rightarrow> Inl e
           | Inr v' \<Rightarrow> json_to_csv_rows_loop json_data columns (csv_row @ [v'])))"

definition json_to_csv_rows :: "json \<Rightarrow> string list \<Rightarrow> exn + string list" where
  "json_to_csv_rows json_data columns = json_to_csv_rows_loop json_data columns []"

section \<open>Uploaded files and the loading loop\<close>

text \<open>
  An uploaded file is seen by the converters through its \<^verbatim>\<open>name\<close> and through what
  \<^verbatim>\<open>json.load(io.TextIOWrapper(json_file, encoding='utf-8'))\<close> does on it: it returns a
  value or raises. Bytes that are not UTF-8 raise \<^verbatim>\<open>UnicodeDecodeError\<close>, text that is
  not JSON raises \<^verbatim>\<open>JSONDecodeError\<close>.
\<close>

datatype outcome = Loaded json | Raised exn

record uploaded_file =
  name :: string
  json_load :: outcome

text \<open>What \<^verbatim>\<open>st.error\<close> has shown so far is a list of notices, threaded through.\<close>

datatype notice =
    Error_processing_file string exn
  | Number_of_custom_headers_must_match

text \<open>
  \<^verbatim>\<open>
  for json_file in json_files:
      try:
          json_data = json.load(io.TextIOWrapper(json_file, encoding='utf-8'))
          json_data_list.append(json_data)
      except (json.JSONDecodeError, TypeError) as e:
          st.error(f"Error processing file {json_file.name}: {e}")
  \<close>
  The same loop opens all three converters. An exception outside the \<^verbatim>\<open>except\<close> tuple
  leaves the loop and the converter.
\<close>

definition caught :: "exn \<Rightarrow> bool" where
  "caught e = (e = JSONDecodeError \<or> e = TypeError)"

fun load_loop ::
  "uploaded_file list \<Rightarrow> json list \<Rightarrow> notice list \<Rightarrow> exn + (json list \<times> notice list)" where
  "load_loop [] json_data_list shown = Inr (json_data_list, shown)"
| "load_loop (json_file # json_files) json_data_list shown =
     (case json_load json_file of
        Loaded json_data \<Rightarrow> load_loop json_files (json_data_list @ [json_data]) shown
      | Raised e \<Rightarrow>
          if caught e
          then load_loop json_files json_data_list
                 (shown @ [Error_processing_file (name json_file) e])
          else Inl e)"

section \<open>The delimited-text converter\<close>

text \<open>
  \<^verbatim>\<open>csv.writer(csv_output)\<close> with the default dialect: delimiter \<^verbatim>\<open>,\<close>, quote character
  \<^verbatim>\<open>"\<close>, doubled quotes, minimal quoting, line terminator \<^verbatim>\<open>\r\n\<close>. A field is quoted
  when it holds the delimiter, the quote character or a character of the line terminator;
  a record of one empty field is written as two quote characters.
\<close>

definition csv_special :: "char \<Rightarrow> bool" where
  "csv_special c = (c = CHR '','' \<or> c = DQ \<or> c = CR \<or> c = LF)"

definition csv_field :: "string \<Rightarrow> string" where
  "csv_field f =
     (if list_ex csv_special f
      then [DQ] @ concat (map (\<lambda>c. if c = DQ then [DQ, DQ] else [c]) f) @ [DQ]
      else f)"

definition csv_record :: "string list \<Rightarrow> string" where
  "csv_record row =
     (if row = [[]] then [DQ, DQ] else intercalate '','' (map csv_field row))"

definition writerow :: "string \<Rightarrow> string list \<Rightarrow> string" where
  "writerow csv_output row = csv_output @ csv_record row @ [CR, LF]"

text \<open>\<^verbatim>\<open>s.encode('utf-8')\<close> on the code points U+0000 .. U+00FF: one byte below 0x80, two from there.\<close>

definition utf8_char :: "char \<Rightarrow> string" where
  "utf8_char c =
     (if (of_char c :: nat) < 128 then [c]
      else [char_of (192 + (of_char c :: nat) div 64), char_of (128 + (of_char c :: nat) mod 64)])"

definition encode_utf8 :: "string \<Rightarrow> string" where
  "encode_utf8 s = concat (map utf8_char s)"

text \<open>
  \<^verbatim>\<open>
  for json_data in json_data_list:
      csv_rows = json_to_csv_rows(json_data, custom_headers)
      writer.writerow(csv_rows)
  \<close>
\<close>

fun write_rows :: "json list \<Rightarrow> string list \<Rightarrow> string \<Rightarrow> exn + string" where
  "write_rows [] custom_headers csv_output = Inr csv_output"
| "write_rows (json_data # json_data_list) custom_headers csv_output =
     (case json_to_csv_rows json_data custom_headers of
        Inl e \<Rightarrow> Inl e
      | Inr csv_rows \<Rightarrow> write_rows json_data_list custom_headers (writerow csv_output csv_rows))"

text \<open>
  \<^verbatim>\<open>
  def convert_multiple_json_to_csv(json_files, custom_headers):
      csv_output = io.StringIO()
      writer = csv.writer(csv_output)
      json_data_list = []
      ... the loading loop ...
      writer.writerow(custom_headers)
      ... the row loop ...
      csv_output.seek(0)
      return csv_output.getvalue().encode('utf-8')
  \<close>
  The result is the returned bytes together with the notices shown.
\<close>

definition convert_multiple_json_to_csv ::
  "uploaded_file list \<Rightarrow> string list \<Rightarrow> exn + (string \<times> notice list)" where
  "convert_multiple_json_to_csv json_files custom_headers =
     (case load_loop json_files [] [] of
        Inl e \<Rightarrow> Inl e
      | Inr (json_data_list, shown) \<Rightarrow>
          (case write_rows json_data_list custom_headers (writerow [] custom_headers) of
             Inl e \<Rightarrow> Inl e
           | Inr csv_output \<Rightarrow> Inr (encode_utf8 csv_output, shown)))"

section \<open>The spreadsheet converter\<close>

text \<open>
  A pandas \<^verbatim>\<open>DataFrame\<close> as far as the converter looks at it: the column labels and the
  rows of cells (\<open>None\<close> for a missing value). Labels that pandas infers from the keys of
  objects are strings; labels that it numbers are positions.
\<close>

datatype label = Key string | Position nat

record frame =
  df_columns :: "label list"
  df_rows :: "json option list list"

text \<open>
  \<^verbatim>\<open>
  def convert_json_to_excel(json_files, custom_headers):
      json_data_list = []
      ... the loading loop ...
      df = pd.DataFrame(json_data_list)
      if len(custom_headers) == len(df.columns):
          df.columns = custom_headers
      else:
          st.error("Number of custom headers must match the number of JSON fields.")
      excel_output = io.BytesIO()
      df.to_excel(excel_output, index=False, engine='openpyxl')
      excel_output.seek(0)
      return excel_output.getvalue()
  \<close>
  The two calls into pandas are parameters: \<open>DataFrame\<close> builds the table from the
  documents and \<open>to_excel\<close> serializes a table, and either may raise.
\<close>

definition convert_json_to_excel ::
  "(json list \<Rightarrow> exn + frame) \<Rightarrow> (frame \<Rightarrow> exn + 'x) \<Rightarrow>
   uploaded_file list \<Rightarrow> string list \<Rightarrow> exn + ('x \<times> notice list)" where
  "convert_json_to_excel DataFrame to_excel json_files custom_headers =
     (case load_loop json_files [] [] of
        Inl e \<Rightarrow> Inl e
      | Inr (json_data_list, shown) \<Rightarrow>
          (case DataFrame json_data_list of
             Inl e \<Rightarrow> Inl e
           | Inr df \<Rightarrow>
               (case (if length custom_headers = length (df_columns df)
                      then (df\<lparr>df_columns := map Key custom_headers\<rparr>, shown)
                      else (df, shown @ [Number_of_custom_headers_must_match])) of
                  (df', shown') \<Rightarrow>
                    (case to_excel df' of
                       Inl e \<Rightarrow> Inl e
                     | Inr excel_output \<Rightarrow> Inr (excel_output, shown')))))"

section \<open>The aggregated-JSON converter\<close>

abbreviation BS :: char where "BS \<equiv> CHR 0x5C"

text \<open>\<^verbatim>\<open>int.__repr__\<close>: the decimal digits, with a minus sign below zero.\<close>

definition digit_char :: "nat \<Rightarrow> char" where
  "digit_char d = char_of (48 + d)"

function digits :: "nat \<Rightarrow> string" where
  "digits n = (if n < 10 then [digit_char n] else digits (n div 10) @ [digit_char (n mod 10)])"
  by pat_completeness auto
termination
  by (relation "measure id") auto

declare digits.simps [simp del]

definition int_repr :: "int \<Rightarrow> string" where
  "int_repr i = (if i < 0 then CHR ''-'' # digits (nat (- i)) else digits (nat i))"

text \<open>
  \<^verbatim>\<open>json.encoder.encode_basestring_ascii\<close> (\<^verbatim>\<open>ensure_ascii\<close> is on by default): every
  character outside the printable range \<^verbatim>\<open>' '\<close> .. \<^verbatim>\<open>'~'\<close>, the quote and the backslash are
  escaped; an escape without a short form is \<^verbatim>\<open>\uXXXX\<close> with four lower-case hex digits.
\<close>

definition hex_char :: "nat \<Rightarrow> char" where
  "hex_char d = (if d < 10 then char_of (48 + d) else char_of (87 + d))"

definition hex4 :: "nat \<Rightarrow> string" where
  "hex4 n = [hex_char (n div 4096 mod 16), hex_char (n div 256 mod 16),
             hex_char (n div 16 mod 16), hex_char (n mod 16)]"

definition escape_char :: "char \<Rightarrow> string" where
  "escape_char c =
     (if c = DQ then [BS, DQ]
      else if c = BS then [BS, BS]
      else if c = LF then [BS, CHR ''n'']
      else if c = CR then [BS, CHR ''r'']
      else if c = CHR 0x09 then [BS, CHR ''t'']
      else if c = CHR 0x08 then [BS, CHR ''b'']
      else if c = CHR 0x0C then [BS, CHR ''f'']
      else if (of_char c :: nat) < 32 \<or> 126 < (of_char c :: nat)
        then [BS, CHR ''u''] @ hex4 (of_char c)
      else [c])"

definition encode_basestring_ascii :: "string \<Rightarrow> string" where
  "encode_basestring_ascii s = [DQ] @ concat (map escape_char s) @ [DQ]"

text \<open>
  \<^verbatim>\<open>json.dumps(obj, indent=4)\<close>: the generator \<^verbatim>\<open>_iterencode\<close> of \<^verbatim>\<open>json.encoder\<close> with the item
  separator \<^verbatim>\<open>","\<close> and the key separator \<^verbatim>\<open>": "\<close>. An empty list is \<^verbatim>\<open>[]\<close> and an empty
  dict is \<^verbatim>\<open>{}\<close>; otherwise every item stands on a line of its own, indented by four
  spaces per level, and the closing bracket is on a line at the level of the opening one.
\<close>

definition newline_indent :: "nat \<Rightarrow> string" where
  "newline_indent level = LF # replicate (4 * level) (CHR '' '')"

fun iterencode :: "nat \<Rightarrow> json \<Rightarrow> string"
  and iterencode_items :: "nat \<Rightarrow> json list \<Rightarrow> string"
  and iterencode_members :: "nat \<Rightarrow> (string \<times> json) list \<Rightarrow> string" where
  "iterencode level JNull = ''null''"
| "iterencode level (JBool b) = (if b then ''true'' else ''false'')"
| "iterencode level (JInt i) = int_repr i"
| "iterencode level (JStr s) = encode_basestring_ascii s"
| "iterencode level (JArr []) = ''[]''"
| "iterencode level (JArr (x # xs)) =
     ''['' @ newline_indent (Suc level) @ iterencode (Suc level) x @
     iterencode_items (Suc level) xs @ newline_indent level @ '']''"
| "iterencode level (JObj []) = ''{}''"
| "iterencode level (JObj ((k, v) # kvs)) =
     ''{'' @ newline_indent (Suc level) @
     encode_basestring_ascii k @ '': '' @ iterencode (Suc level) v @
     iterencode_members (Suc level) kvs @ newline_indent level @ ''}''"
| "iterencode_items level [] = []"
| "iterencode_items level (x # xs) =
     '','' @ newline_indent level @ iterencode level x @ iterencode_items level xs"
| "iterencode_members level [] = []"
| "iterencode_members level ((k, v) # kvs) =
     '','' @ newline_indent level @ encode_basestring_ascii k @ '': '' @ iterencode level v @
     iterencode_members level kvs"

definition json_dumps :: "json \<Rightarrow> string" where
  "json_dumps obj = iterencode 0 obj"

text \<open>
  \<^verbatim>\<open>
  def convert_json_to_json(json_files):
      json_data_list = []
      ... the loading loop ...
      return json.dumps(json_data_list, indent=4).encode('utf-8')
  \<close>
\<close>

definition convert_json_to_json :: "uploaded_file list \<Rightarrow> exn + (string \<times> notice list)" where
  "convert_json_to_json json_files =
     (case load_loop json_files [] [] of
        Inl e \<Rightarrow> Inl e
      | Inr (json_data_list, shown) \<Rightarrow>
          Inr (encode_utf8 (json_dumps (JArr json_data_list)), shown))"

section \<open>Reading the aggregated JSON back\<close>


text \<open>
  \<^verbatim>\<open>json.loads\<close>, the decoder of \<^verbatim>\<open>json.decoder\<close> and \<^verbatim>\<open>json.scanner\<close>. \<open>None\<close> stands for
  \<^verbatim>\<open>JSONDecodeError\<close> and for the texts whose value is outside \<open>json\<close>: a number with a
  fraction or an exponent, \<^verbatim>\<open>NaN\<close>, \<^verbatim>\<open>Infinity\<close>, an escape \<^verbatim>\<open>\uXXXX\<close> above U+00FF.
\<close>

definition is_ws :: "char \<Rightarrow> bool" where
  "is_ws c = (c = CHR '' '' \<or> c = CHR 0x09 \<or> c = LF \<or> c = CR)"

definition skip_ws :: "string \<Rightarrow> string" where
  "skip_ws s = dropWhile is_ws s"

definition is_digit :: "char \<Rightarrow> bool" where
  "is_digit c = (48 \<le> (of_char c :: nat) \<and> (of_char c :: nat) \<le> 57)"

definition hex_val :: "char \<Rightarrow> nat option" where
  "hex_val c =
     (if 48 \<le> (of_char c :: nat) \<and> (of_char c :: nat) \<le> 57 then Some (of_char c - 48)
      else if 97 \<le> (of_char c :: nat) \<and> (of_char c :: nat) \<le> 102 then Some (of_char c - 87)
      else if 65 \<le> (of_char c :: nat) \<and> (of_char c :: nat) \<le> 70 then Some (of_char c - 55)
      else None)"

definition decode_uXXXX :: "string \<Rightarrow> nat option" where
  "decode_uXXXX esc =
     (case map hex_val esc of
        [Some a, Some b, Some c, Some d] \<Rightarrow> Some (((a * 16 + b) * 16 + c) * 16 + d)
      | _ \<Rightarrow> None)"

definition backslash :: "char \<Rightarrow> char option" where
  "backslash e =
     (if e = DQ then Some DQ
      else if e = BS then Some BS
      else if e = CHR ''/'' then Some (CHR ''/'')
      else if e = CHR ''b'' then Some (CHR 0x08)
      else if e = CHR ''f'' then Some (CHR 0x0C)
      else if e = CHR ''n'' then Some LF
      else if e = CHR ''r'' then Some CR
      else if e = CHR ''t'' then Some (CHR 0x09)
      else None)"

text \<open>\<^verbatim>\<open>scanstring\<close> from the character after the opening quote, in strict mode.\<close>

function scanstring :: "string \<Rightarrow> (string \<times> string) option" where
  "scanstring s =
     (case s of
        [] \<Rightarrow> None
      | c # cs \<Rightarrow>
          if c = DQ then Some ([], cs)
          else if c = BS then
            (case cs of
               [] \<Rightarrow> None
             | e # cs' \<Rightarrow>
                 if e = CHR ''u'' then
                   (case decode_uXXXX (take 4 cs') of
                      None \<Rightarrow> None
                    | Some n \<Rightarrow>
                        if n < 256 then
                          (case scanstring (drop 4 cs') of
                             None \<Rightarrow> None
                           | Some (chunks, rest) \<Rightarrow> Some (char_of n # chunks, rest))
                        else None)
                 else
                   (case backslash e of
                      None \<Rightarrow> None
                    | Some ch \<Rightarrow>
                        (case scanstring cs' of
                           None \<Rightarrow> None
                         | Some (chunks, rest) \<Rightarrow> Some (ch # chunks, rest))))
          else if (of_char c :: nat) < 32 then None
          else
            (case scanstring cs of
               None \<Rightarrow> None
             | Some (chunks, rest) \<Rightarrow> Some (c # chunks, rest)))"
  by pat_completeness auto
termination
  by (relation "measure length") auto

declare scanstring.simps [simp del]

text \<open>
  The number pattern \<^verbatim>\<open>(-?(?:0|[1-9]\d*))(\.\d+)?([eE][-+]?\d+)?\<close>: an integer part, and a
  fraction or an exponent that makes the value a float.
\<close>

definition int_of_digits :: "string \<Rightarrow> nat" where
  "int_of_digits ds = foldl (\<lambda>n c. 10 * n + ((of_char c :: nat) - 48)) 0 ds"

definition frac_follows :: "string \<Rightarrow> bool" where
  "frac_follows s = (case s of c # d # _ \<Rightarrow> c = CHR ''.'' \<and> is_digit d | _ \<Rightarrow> False)"

definition exp_follows :: "string \<Rightarrow> bool" where
  "exp_follows s =
     (case s of
        e # d # r \<Rightarrow>
          (e = CHR ''e'' \<or> e = CHR ''E'') \<and>
          (is_digit d \<or>
           ((d = CHR ''+'' \<or> d = CHR ''-'') \<and> (case r of d' # _ \<Rightarrow> is_digit d' | [] \<Rightarrow> False)))
      | _ \<Rightarrow> False)"

definition match_number :: "string \<Rightarrow> (json \<times> string) option" where
  "match_number s =
     (case (case s of c # r \<Rightarrow> if c = CHR ''-'' then (True, r) else (False, s) | [] \<Rightarrow> (False, s)) of
        (negative, s1) \<Rightarrow>
          (case s1 of
             [] \<Rightarrow> None
           | d # r \<Rightarrow>
               if \<not> is_digit d then None
               else
                 (case (if d = CHR ''0'' then ([d], r)
                        else (takeWhile is_digit s1, dropWhile is_digit s1)) of
                    (integer, rest) \<Rightarrow>
                      if frac_follows rest \<or> exp_follows rest then None
                      else Some (JInt (if negative then - int (int_of_digits integer)
                                       else int (int_of_digits integer)), rest))))"

text \<open>\<^verbatim>\<open>dict(pairs)\<close>: a key that comes again keeps its place and takes the later value.\<close>

fun dict_set :: "(string \<times> json) list \<Rightarrow> string \<Rightarrow> json \<Rightarrow> (string \<times> json) list" where
  "dict_set [] k v = [(k, v)]"
| "dict_set ((k', v') # d) k v = (if k' = k then (k, v) # d else (k', v') # dict_set d k v)"

definition dict_of_pairs :: "(string \<times> json) list \<Rightarrow> (string \<times> json) list" where
  "dict_of_pairs pairs = foldl (\<lambda>d kv. dict_set d (fst kv) (snd kv)) [] pairs"

text \<open>
  \<^verbatim>\<open>scan_once\<close>, \<^verbatim>\<open>JSONArray\<close> and \<^verbatim>\<open>JSONObject\<close>. They call each other as deep as the text
  nests; the first argument bounds the number of calls, and \<open>None\<close> is returned when it
  runs out. \<open>scan_array\<close> starts at a value of the array and \<open>scan_object\<close> after the
  opening quote of a key, each with what it has collected so far.
\<close>

fun scan_once :: "nat \<Rightarrow> string \<Rightarrow> (json \<times> string) option"
  and scan_array :: "nat \<Rightarrow> string \<Rightarrow> json list \<Rightarrow> (json \<times> string) option"
  and scan_object :: "nat \<Rightarrow> string \<Rightarrow> (string \<times> json) list \<Rightarrow> (json \<times> string) option" where
  "scan_once 0 s = None"
| "scan_once (Suc n) s =
     (case s of
        [] \<Rightarrow> None
      | c # cs \<Rightarrow>
          if c = DQ then
            (case scanstring cs of None \<Rightarrow> None | Some (str, rest) \<Rightarrow> Some (JStr str, rest))
          else if c = CHR ''{'' then
            (case skip_ws cs of
               [] \<Rightarrow> None
             | c' # rest \<Rightarrow>
                 if c' = CHR ''}'' then Some (JObj [], rest)
                 else if c' = DQ then scan_object n rest []
                 else None)
          else if c = CHR ''['' then
            (case skip_ws cs of
               [] \<Rightarrow> None
             | c' # rest \<Rightarrow>
                 if c' = CHR '']'' then Some (JArr [], rest)
                 else scan_array n (c' # rest) [])
          else if take 4 s = ''null'' then Some (JNull, drop 4 s)
          else if take 4 s = ''true'' then Some (JBool True, drop 4 s)
          else if take 5 s = ''false'' then Some (JBool False, drop 5 s)
          else match_number s)"
| "scan_array 0 s values = None"
| "scan_array (Suc n) s values =
     (case scan_once n s of
        None \<Rightarrow> None
      | Some (v, rest) \<Rightarrow>
          (case skip_ws rest of
             [] \<Rightarrow> None
           | c # rest' \<Rightarrow>
               if c = CHR '']'' then Some (JArr (values @ [v]), rest')
               else if c = CHR '','' then scan_array n (skip_ws rest') (values @ [v])
               else None))"
| "scan_object 0 s pairs = None"
| "scan_object (Suc n) s pairs =
     (case scanstring s of
        None \<Rightarrow> None
      | Some (key, rest) \<Rightarrow>
          (case skip_ws rest of
             [] \<Rightarrow> None
           | c # rest1 \<Rightarrow>
               if c \<noteq> CHR '':'' then None
               else
                 (case scan_once n (skip_ws rest1) of
                    None \<Rightarrow> None
                  | Some (v, rest2) \<Rightarrow>
                      (case skip_ws rest2 of
                         [] \<Rightarrow> None
                       | c' # rest3 \<Rightarrow>
                           if c' = CHR ''}'' then
                             Some (JObj (dict_of_pairs (pairs @ [(key, v)])), rest3)
                           else if c' = CHR '','' then
                             (case skip_ws rest3 of
                                [] \<Rightarrow> None
                              | q # rest4 \<Rightarrow>
                                  if q = DQ then scan_object n rest4 (pairs @ [(key, v)])
                                  else None)
                           else None))))"



section \<open>Vocabulary of the properties\<close>

text \<open>
  The values on which \<^verbatim>\<open>clean_multiline_field\<close> returns: a \<^verbatim>\<open>str\<close>, a list of \<^verbatim>\<open>str\<close>, and
  every value that is false in a condition.
\<close>

fun is_JStr :: "json \<Rightarrow> bool" where
  "is_JStr (JStr s) = True"
| "is_JStr v = False"

fun normalizable :: "json \<Rightarrow> bool" where
  "normalizable (JStr s) = True"
| "normalizable (JArr xs) = list_all is_JStr xs"
| "normalizable v = (\<not> truthy v)"

text \<open>One pass of the body of the loop of \<^verbatim>\<open>json_to_csv_rows\<close>: the cell of one column.\<close>

definition cell :: "json \<Rightarrow> string \<Rightarrow> exn + string" where
  "cell json_data column =
     (case dict_get json_data column (JStr []) of
        Inl e \<Rightarrow> Inl e
      | Inr v \<Rightarrow> clean_multiline_field v)"


text \<open>
  The documents of the files that \<^verbatim>\<open>json.load\<close> returned, in the order of the files, and
  the notices of the files on which it raised.
\<close>

fun loaded_documents :: "uploaded_file list \<Rightarrow> json list" where
  "loaded_documents [] = []"
| "loaded_documents (f # fs) =
     (case json_load f of
        Loaded d \<Rightarrow> d # loaded_documents fs
      | Raised e \<Rightarrow> loaded_documents fs)"

fun parse_notices :: "uploaded_file list \<Rightarrow> notice list" where
  "parse_notices [] = []"
| "parse_notices (f # fs) =
     (case json_load f of
        Loaded d \<Rightarrow> parse_notices fs
      | Raised e \<Rightarrow> Error_processing_file (name f) e # parse_notices fs)"

definition all_caught :: "uploaded_file list \<Rightarrow> bool" where
  "all_caught fs =
     list_all (\<lambda>f. case json_load f of Loaded d \<Rightarrow> True | Raised e \<Rightarrow> caught e) fs"







section \<open>The field normalizer\<close>

lemma str_replace_char:
  "str_replace [c] new s = concat (map (\<lambda>x. if x = c then new else [x]) s)"
proof (induction s)
  case Nil
  show ?case by (simp add: str_replace.simps)
next
  case (Cons x xs)
  show ?case by (subst str_replace.simps) (simp add: Cons.IH)
qed

lemma str_items_Inr_iff: "(\<exists>ss. str_items xs = Inr ss) \<longleftrightarrow> list_all is_JStr xs"
proof (induction xs)
  case Nil
  show ?case by simp
next
  case (Cons x xs)
  then show ?case by (cases x) (auto split: sum.splits)
qed

lemma str_items_map_JStr: "str_items (map JStr ss) = Inr ss"
  by (induction ss) auto

lemma clean_returns_iff: "(\<exists>s. clean_multiline_field v = Inr s) \<longleftrightarrow> normalizable v"
proof (cases v)
  case (JArr xs)
  have "(\<exists>s. clean_multiline_field (JArr xs) = Inr s) \<longleftrightarrow> (\<exists>ss. str_items xs = Inr ss)"
    by (auto simp: clean_multiline_field_def str_join_def split: sum.splits)
  then show ?thesis using JArr by (simp add: str_items_Inr_iff)
qed (auto simp: clean_multiline_field_def)


lemma concat_map_id: "\<forall>c\<in>set s. f c = [c] \<Longrightarrow> concat (map f s) = s"
  by (induction s) auto

lemma set_intercalate: "set (intercalate sep ss) \<subseteq> set sep \<union> \<Union> (set ` set ss)"
  by (induction sep ss rule: intercalate.induct) auto

text \<open>
  Claim C1 says that the normalizer returns a string on every field value and never
  raises. On the number 1 it raises: 1 is true in the condition and an \<^verbatim>\<open>int\<close> has no
  \<^verbatim>\<open>replace\<close>.
\<close>

theorem clean_multiline_field_number_raises:
  "clean_multiline_field (JInt 1) = Inl AttributeError"
  by (simp add: clean_multiline_field_def)

text \<open>
  Claim C1, amended: the normalizer returns a string exactly on the values that are a
  string, a sequence of strings, or false in a condition (null, false, 0, the empty
  sequence, the empty object); on every other value it raises.
\<close>

theorem clean_multiline_field_returns_iff:
  "(\<exists>s. clean_multiline_field v = Inr s) \<longleftrightarrow> normalizable v"
  by (rule clean_returns_iff)

theorem clean_multiline_field_returns_iff_witness:
  "(\<exists>s. clean_multiline_field (JArr [JStr ''a'', JStr ''b'']) = Inr s) \<and>
   \<not> (\<exists>s. clean_multiline_field (JBool True) = Inr s)"
  using clean_multiline_field_returns_iff [of "JArr [JStr ''a'', JStr ''b'']"]
    clean_multiline_field_returns_iff [of "JBool True"]
  by simp

text \<open>
  Claim C8 says that every sequence-valued field is normalized to its elements joined by
  \<^verbatim>\<open>", "\<close>. A sequence of numbers raises \<^verbatim>\<open>TypeError\<close> in \<^verbatim>\<open>join\<close>.
\<close>

theorem clean_multiline_field_sequence_of_numbers_raises:
  "clean_multiline_field (JArr [JInt 1, JInt 2]) = Inl TypeError"
  by (simp add: clean_multiline_field_def str_join_def)

text \<open>
  Claim C8, amended: a sequence of strings is normalized to its elements joined by
  \<^verbatim>\<open>", "\<close> with every line feed of the joined text replaced by \<^verbatim>\<open>" | "\<close>; when no element
  holds a line feed this is the joined text itself.
\<close>

theorem clean_multiline_field_sequence_of_strings:
  "clean_multiline_field (JArr (map JStr ss)) =
     Inr (concat (map (\<lambda>c. if c = LF then '' | '' else [c]) (intercalate '', '' ss))) \<and>
   ((\<forall>s\<in>set ss. LF \<notin> set s) \<longrightarrow>
      clean_multiline_field (JArr (map JStr ss)) = Inr (intercalate '', '' ss))"
proof -
  have eq: "clean_multiline_field (JArr (map JStr ss)) =
     Inr (concat (map (\<lambda>c. if c = LF then '' | '' else [c]) (intercalate '', '' ss)))"
    by (simp add: clean_multiline_field_def str_join_def str_items_map_JStr str_replace_char)
  have "concat (map (\<lambda>c. if c = LF then '' | '' else [c]) (intercalate '', '' ss)) =
      intercalate '', '' ss"
    if "\<forall>s\<in>set ss. LF \<notin> set s"
  proof (rule concat_map_id)
    have "LF \<notin> set (intercalate '', '' ss)"
      using set_intercalate [of "'', ''" ss] that by auto
    then show "\<forall>c\<in>set (intercalate '', '' ss). (if c = LF then '' | '' else [c]) = [c]"
      by auto
  qed
  with eq show ?thesis by simp
qed

theorem clean_multiline_field_sequence_of_strings_witness:
  "clean_multiline_field (JArr (map JStr [''x'', [CHR ''y'', LF, CHR ''z'']])) = Inr ''x, y | z'' \<and>
   clean_multiline_field (JArr (map JStr [''x'', ''y''])) = Inr ''x, y''"
  using clean_multiline_field_sequence_of_strings [of "[''x'', [CHR ''y'', LF, CHR ''z'']]"]
    clean_multiline_field_sequence_of_strings [of "[''x'', ''y'']"]
  by simp

section \<open>The row mapper\<close>

lemma loop_acc:
  "json_to_csv_rows_loop d hs acc =
     (case json_to_csv_rows_loop d hs [] of Inl e \<Rightarrow> Inl e | Inr r \<Rightarrow> Inr (acc @ r))"
proof (induction hs arbitrary: acc)
  case Nil
  show ?case by simp
next
  case (Cons h hs)
  show ?case
    by (simp add: Cons.IH [of "acc @ _"] Cons.IH [of "[_]"] split: sum.splits)
qed

lemma rows_Cons:
  "json_to_csv_rows d (h # hs) =
     (case cell d h of
        Inl e \<Rightarrow> Inl e
      | Inr c \<Rightarrow> (case json_to_csv_rows d hs of Inl e \<Rightarrow> Inl e | Inr r \<Rightarrow> Inr (c # r)))"
  by (simp add: json_to_csv_rows_def cell_def loop_acc [of d hs "[_]"] split: sum.splits)

lemma rows_Nil: "json_to_csv_rows d [] = Inr []"
  by (simp add: json_to_csv_rows_def)

lemma rows_Inr_iff:
  "json_to_csv_rows d hs = Inr row \<longleftrightarrow> list_all2 (\<lambda>h c. cell d h = Inr c) hs row"
proof (induction hs arbitrary: row)
  case Nil
  show ?case by (auto simp: rows_Nil)
next
  case (Cons h hs)
  show ?case
  proof (cases row)
    case Nil
    then show ?thesis by (simp add: rows_Cons split: sum.splits)
  next
    case (Cons c r)
    show ?thesis
      unfolding Cons rows_Cons list_all2_Cons
      using Cons.IH [of r] Cons.IH
      by (cases "cell d h"; cases "json_to_csv_rows d hs") auto
  qed
qed

lemma rows_length: "json_to_csv_rows d hs = Inr row \<Longrightarrow> length row = length hs"
  by (simp add: rows_Inr_iff list_all2_lengthD)

lemma rows_nth:
  "json_to_csv_rows d hs = Inr row \<Longrightarrow> i < length hs \<Longrightarrow> cell d (hs ! i) = Inr (row ! i)"
  by (auto simp: rows_Inr_iff dest: list_all2_nthD)

lemma rows_append:
  "json_to_csv_rows d (hs @ hs') =
     (case json_to_csv_rows d hs of
        Inl e \<Rightarrow> Inl e
      | Inr r \<Rightarrow> (case json_to_csv_rows d hs' of Inl e \<Rightarrow> Inl e | Inr r' \<Rightarrow> Inr (r @ r')))"
  by (induction hs) (auto simp: rows_Nil rows_Cons split: sum.splits)

lemma cell_JObj:
  "cell (JObj kvs) h =
     clean_multiline_field (case map_of kvs h of None \<Rightarrow> JStr [] | Some v \<Rightarrow> v)"
  by (simp add: cell_def)

lemma rows_returns:
  "\<forall>h\<in>set hs. \<exists>c. cell d h = Inr c \<Longrightarrow> \<exists>row. json_to_csv_rows d hs = Inr row"
  by (induction hs) (auto simp: rows_Nil rows_Cons)


text \<open>
  Claim C5 says that \<^verbatim>\<open>mapRow\<close> returns a row of the length of the header list for every
  document and every header list. On the document \<^verbatim>\<open>{"a": 1}\<close> with the header \<^verbatim>\<open>a\<close> it
  returns no row: the normalizer raises on the number.
\<close>

theorem json_to_csv_rows_number_raises:
  "json_to_csv_rows (JObj [(''a'', JInt 1)]) [''a''] = Inl AttributeError"
  by (simp add: json_to_csv_rows_def clean_multiline_field_def)

text \<open>
  Claim C5, amended: every row that \<^verbatim>\<open>mapRow\<close> returns has the length of the header list,
  whatever the number of fields of the document; and it returns a row for every object
  whose fields under the headers are strings, sequences of strings, false values or
  missing.
\<close>

theorem json_to_csv_rows_length:
  "(json_to_csv_rows d hs = Inr row \<longrightarrow> length row = length hs) \<and>
   ((\<forall>h\<in>set hs. normalizable (case map_of kvs h of None \<Rightarrow> JStr [] | Some v \<Rightarrow> v)) \<longrightarrow>
      (\<exists>r. json_to_csv_rows (JObj kvs) hs = Inr r \<and> length r = length hs))"
proof (intro conjI impI)
  assume "json_to_csv_rows d hs = Inr row"
  then show "length row = length hs" by (rule rows_length)
next
  assume n: "\<forall>h\<in>set hs. normalizable (case map_of kvs h of None \<Rightarrow> JStr [] | Some v \<Rightarrow> v)"
  have "\<forall>h\<in>set hs. \<exists>c. cell (JObj kvs) h = Inr c"
    using n by (simp add: cell_JObj clean_returns_iff)
  then obtain r where "json_to_csv_rows (JObj kvs) hs = Inr r"
    using rows_returns by blast
  then show "\<exists>r. json_to_csv_rows (JObj kvs) hs = Inr r \<and> length r = length hs"
    using rows_length by blast
qed

theorem json_to_csv_rows_length_witness:
  "json_to_csv_rows (JObj [(''a'', JStr ''x''), (''b'', JNull), (''c'', JInt 7)])
     [''b'', ''z'', ''a'', ''a''] = Inr [[], [], ''x'', ''x''] \<and>
   length [[], [], ''x'', ''x''] = length [''b'', ''z'', ''a'', ''a''] \<and>
   (\<exists>r. json_to_csv_rows (JObj [(''a'', JStr ''x''), (''b'', JNull), (''c'', JInt 7)])
          [''b'', ''z'', ''a'', ''a''] = Inr r \<and> length r = 4)"
  using json_to_csv_rows_length
    [of "JObj [(''a'', JStr ''x''), (''b'', JNull), (''c'', JInt 7)]"
      "[''b'', ''z'', ''a'', ''a'']" "[[], [], ''x'', ''x'']"
      "[(''a'', JStr ''x''), (''b'', JNull), (''c'', JInt 7)]"]
  by (simp add: json_to_csv_rows_def clean_multiline_field_def str_replace_char)

text \<open>
  Claim C6: at the position of a header that the document does not have, \<^verbatim>\<open>mapRow\<close>
  produces the empty string. The row it returns holds the empty string there (not the text
  \<^verbatim>\<open>null\<close>), and the pass over that header never raises: once the row of the headers before
  it is built, the row that includes it is built too, one empty string longer.
\<close>

theorem json_to_csv_rows_missing_field:
  assumes "i < length hs" and "map_of kvs (hs ! i) = None"
  shows "(json_to_csv_rows (JObj kvs) hs = Inr row \<longrightarrow> row ! i = []) \<and>
         (json_to_csv_rows (JObj kvs) (take i hs) = Inr r \<longrightarrow>
            json_to_csv_rows (JObj kvs) (take (Suc i) hs) = Inr (r @ [[]]))"
proof -
  have c: "cell (JObj kvs) (hs ! i) = Inr []"
    using assms(2) by (simp add: cell_JObj clean_multiline_field_def)
  have "row ! i = []" if "json_to_csv_rows (JObj kvs) hs = Inr row"
    using rows_nth [OF that assms(1)] c by simp
  moreover have "json_to_csv_rows (JObj kvs) (take (Suc i) hs) = Inr (r @ [[]])"
    if "json_to_csv_rows (JObj kvs) (take i hs) = Inr r"
    using that c assms(1)
    by (simp add: take_Suc_conv_app_nth rows_append rows_Cons rows_Nil)
  ultimately show ?thesis by blast
qed

theorem json_to_csv_rows_missing_field_witness:
  "json_to_csv_rows (JObj [(''a'', JStr ''x'')]) [''a'', ''q''] = Inr [''x'', []] \<and>
   [''x'', []] ! 1 = [] \<and>
   json_to_csv_rows (JObj [(''a'', JStr ''x'')]) (take 2 [''a'', ''q'']) = Inr ([''x''] @ [[]])"
proof -
  have a: "(1::nat) < length [''a'', ''q'']" by simp
  have b: "map_of [(''a'', JStr ''x'')] ([''a'', ''q''] ! 1) = None" by simp
  have e: "json_to_csv_rows (JObj [(''a'', JStr ''x'')]) [''a'', ''q''] = Inr [''x'', []]"
    by (simp add: json_to_csv_rows_def clean_multiline_field_def str_replace_char)
  have f: "json_to_csv_rows (JObj [(''a'', JStr ''x'')]) (take 1 [''a'', ''q'']) = Inr [''x'']"
    by (simp add: json_to_csv_rows_def clean_multiline_field_def str_replace_char)
  from json_to_csv_rows_missing_field [OF a b, of "[''x'', []]" "[''x'']"] e f show ?thesis
    by (simp add: numeral_2_eq_2)
qed


section \<open>The loading loop and the delimited-text converter\<close>

lemma load_loop_caught:
  "all_caught fs \<Longrightarrow>
     load_loop fs docs shown = Inr (docs @ loaded_documents fs, shown @ parse_notices fs)"
  by (induction fs arbitrary: docs shown) (auto simp: all_caught_def split: outcome.splits)









lemma encode_utf8_ascii: "\<forall>c\<in>set s. (of_char c :: nat) < 128 \<Longrightarrow> encode_utf8 s = s"
  by (induction s) (auto simp: encode_utf8_def utf8_char_def)

lemma length_encode_utf8_ge: "length s \<le> length (encode_utf8 s)"
  by (induction s) (auto simp: encode_utf8_def utf8_char_def)

lemma of_char_char_of_small: "n < 256 \<Longrightarrow> (of_char (char_of (n::nat)) :: nat) = n"
  by simp













text \<open>
  Claim C2 says that the two documents \<^verbatim>\<open>{"a":1,"b":"x\ny"}\<close> and \<^verbatim>\<open>{"a":2,"b":"z"}\<close> with the
  headers \<^verbatim>\<open>a\<close>, \<^verbatim>\<open>b\<close> give the three lines \<^verbatim>\<open>a,b\<close>, \<^verbatim>\<open>1,x | y\<close>, \<^verbatim>\<open>2,z\<close>. The converter
  returns no text on them: the value of \<^verbatim>\<open>a\<close> is a number, on which the normalizer raises.
\<close>

theorem convert_multiple_json_to_csv_example_raises:
  "convert_multiple_json_to_csv
     [\<lparr>name = ''1.json'', json_load = Loaded (JObj [(''a'', JInt 1), (''b'', JStr [CHR ''x'', LF, CHR ''y''])])\<rparr>,
      \<lparr>name = ''2.json'', json_load = Loaded (JObj [(''a'', JInt 2), (''b'', JStr ''z'')])\<rparr>]
     [''a'', ''b''] = Inl AttributeError"
  by (simp add: convert_multiple_json_to_csv_def json_to_csv_rows_def clean_multiline_field_def)


text \<open>
  Claim C2, amended: with the values of \<^verbatim>\<open>a\<close> given as the strings \<^verbatim>\<open>"1"\<close> and \<^verbatim>\<open>"2"\<close>, the
  two documents and the headers \<^verbatim>\<open>a\<close>, \<^verbatim>\<open>b\<close> give the UTF-8 text of the three lines
  \<^verbatim>\<open>a,b\<close>, \<^verbatim>\<open>1,x | y\<close>, \<^verbatim>\<open>2,z\<close>, each ended by a carriage return and a line feed.
\<close>

theorem convert_multiple_json_to_csv_example:
  "convert_multiple_json_to_csv
     [\<lparr>name = ''1.json'', json_load = Loaded (JObj [(''a'', JStr ''1''), (''b'', JStr [CHR ''x'', LF, CHR ''y''])])\<rparr>,
      \<lparr>name = ''2.json'', json_load = Loaded (JObj [(''a'', JStr ''2''), (''b'', JStr ''z'')])\<rparr>]
     [''a'', ''b''] =
   Inr (''a,b'' @ [CR, LF] @ ''1,x | y'' @ [CR, LF] @ ''2,z'' @ [CR, LF], [])"
  by (simp add: convert_multiple_json_to_csv_def json_to_csv_rows_def clean_multiline_field_def
      str_replace_char writerow_def csv_record_def csv_field_def csv_special_def
      encode_utf8_def utf8_char_def)







section \<open>The spreadsheet converter and the files that fail to load\<close>

lemma convert_excel_loaded:
  assumes "all_caught files" and "DataFrame (loaded_documents files) = Inr df"
  shows "convert_json_to_excel DataFrame to_excel files hs =
     (if length hs = length (df_columns df)
      then (case to_excel (df\<lparr>df_columns := map Key hs\<rparr>) of
              Inl e \<Rightarrow> Inl e
            | Inr out \<Rightarrow> Inr (out, parse_notices files))
      else (case to_excel df of
              Inl e \<Rightarrow> Inl e
            | Inr out \<Rightarrow> Inr (out, parse_notices files @ [Number_of_custom_headers_must_match])))"
  using assms
  by (simp add: convert_json_to_excel_def load_loop_caught split: sum.splits)

text \<open>
  Claim C3: the spreadsheet converter overwrites the column labels of the inferred table
  with the headers, position by position, exactly when the number of headers equals the
  number of inferred columns; otherwise it reports the mismatch, keeps the inferred
  labels and still writes the spreadsheet from them. Whatever table pandas infers from the
  loaded documents and whatever the serializer does: with equal counts the converter
  returns what the serializer returns on the relabelled table, with no further notice;
  with different counts it returns what the serializer returns on the table as inferred,
  and the notice of the mismatch is shown after those of the files.
\<close>

theorem convert_json_to_excel_headers:
  assumes "all_caught files" and "DataFrame (loaded_documents files) = Inr df"
  shows "(length hs = length (df_columns df) \<longrightarrow>
           convert_json_to_excel DataFrame to_excel files hs =
             (case to_excel (df\<lparr>df_columns := map Key hs\<rparr>) of
                Inl e \<Rightarrow> Inl e
              | Inr out \<Rightarrow> Inr (out, parse_notices files))) \<and>
         (length hs \<noteq> length (df_columns df) \<longrightarrow>
           convert_json_to_excel DataFrame to_excel files hs =
             (case to_excel df of
                Inl e \<Rightarrow> Inl e
              | Inr out \<Rightarrow>
                  Inr (out, parse_notices files @ [Number_of_custom_headers_must_match])))"
  using convert_excel_loaded [of files DataFrame df to_excel hs] assms by simp

theorem convert_json_to_excel_headers_witness:
  "convert_json_to_excel
     (\<lambda>docs. Inr \<lparr>df_columns = [Key ''a'', Key ''b''], df_rows = [[Some (JInt 1), Some (JInt 2)]]\<rparr>)
     Inr [\<lparr>name = ''1.json'', json_load = Loaded (JObj [(''a'', JInt 1), (''b'', JInt 2)])\<rparr>]
     [''p'', ''q''] =
     Inr (\<lparr>df_columns = [Key ''p'', Key ''q''], df_rows = [[Some (JInt 1), Some (JInt 2)]]\<rparr>, []) \<and>
   convert_json_to_excel
     (\<lambda>docs. Inr \<lparr>df_columns = [Key ''a'', Key ''b''], df_rows = [[Some (JInt 1), Some (JInt 2)]]\<rparr>)
     Inr [\<lparr>name = ''1.json'', json_load = Loaded (JObj [(''a'', JInt 1), (''b'', JInt 2)])\<rparr>]
     [''a'', ''b'', ''c''] =
     Inr (\<lparr>df_columns = [Key ''a'', Key ''b''], df_rows = [[Some (JInt 1), Some (JInt 2)]]\<rparr>,
          [Number_of_custom_headers_must_match])"
proof -
  let ?files = "[\<lparr>name = ''1.json'', json_load = Loaded (JObj [(''a'', JInt 1), (''b'', JInt 2)])\<rparr>]"
  let ?df = "\<lparr>df_columns = [Key ''a'', Key ''b''], df_rows = [[Some (JInt 1), Some (JInt 2)]]\<rparr>"
  have a: "all_caught ?files" by (simp add: all_caught_def)
  have b: "(\<lambda>docs. Inr ?df) (loaded_documents ?files) = Inr ?df" by simp
  show ?thesis
    using convert_json_to_excel_headers [of ?files "\<lambda>docs. Inr ?df" ?df "[''p'', ''q'']" Inr, OF a b]
      convert_json_to_excel_headers [of ?files "\<lambda>docs. Inr ?df" ?df "[''a'', ''b'', ''c'']" Inr, OF a b]
    by simp
qed

text \<open>
  Claim C9 says that, for every list of files and every converter, a file whose bytes fail
  to parse as JSON is left out and reported while the export goes on with the other
  documents. The \<^verbatim>\<open>except\<close> clause of the loading loop names \<^verbatim>\<open>JSONDecodeError\<close> and
  \<^verbatim>\<open>TypeError\<close> only. A file whose bytes are not UTF-8 makes \<^verbatim>\<open>json.load\<close> raise
  \<^verbatim>\<open>UnicodeDecodeError\<close>, which is neither: each of the three converters then raises, nothing
  is reported and nothing is exported, although the other file is a valid document.
\<close>

theorem converters_raise_on_undecodable_file:
  "convert_multiple_json_to_csv
     [\<lparr>name = ''1.json'', json_load = Loaded (JObj [(''a'', JStr ''x'')])\<rparr>,
      \<lparr>name = ''2.json'', json_load = Raised UnicodeDecodeError\<rparr>] [''a''] = Inl UnicodeDecodeError \<and>
   convert_json_to_excel DataFrame to_excel
     [\<lparr>name = ''1.json'', json_load = Loaded (JObj [(''a'', JStr ''x'')])\<rparr>,
      \<lparr>name = ''2.json'', json_load = Raised UnicodeDecodeError\<rparr>] [''a''] = Inl UnicodeDecodeError \<and>
   convert_json_to_json
     [\<lparr>name = ''1.json'', json_load = Loaded (JObj [(''a'', JStr ''x'')])\<rparr>,
      \<lparr>name = ''2.json'', json_load = Raised UnicodeDecodeError\<rparr>] = Inl UnicodeDecodeError"
  by (simp add: convert_multiple_json_to_csv_def convert_json_to_excel_def
      convert_json_to_json_def caught_def)

section \<open>The aggregated JSON read back\<close>
















lemma of_char_digit_char: "d < 10 \<Longrightarrow> (of_char (digit_char d) :: nat) = 48 + d"
  unfolding digit_char_def by (intro of_char_char_of_small) linarith


































lemma scan_once_literals:
  "scan_once (Suc n) (''null'' @ rest) = Some (JNull, rest)"
  "scan_once (Suc n) (''true'' @ rest) = Some (JBool True, rest)"
  "scan_once (Suc n) (''false'' @ rest) = Some (JBool False, rest)"
  by simp_all
















lemma digit_char_not_LF: "d < 10 \<Longrightarrow> digit_char d \<noteq> LF"
  using of_char_digit_char [of d] by auto
















end
